theory Spec2Isabelle
  imports Main "HOL-Library.AList" "HOL-Library.Sublist"
begin

section \<open>JavaScript values used by the client\<close>

text \<open>
  Strings are byte strings; text outside ASCII (the pictographs of the alert messages) is
  written as its UTF-8 bytes. A value of type \<open>string | null\<close> is a \<open>string option\<close>.
  The source tests such values with \<open>if (x)\<close>, \<open>!x\<close> and \<open>x || y\<close>, where \<open>null\<close>,
  \<open>undefined\<close> and the empty string all count as false.
\<close>

definition truthy :: "string option \<Rightarrow> bool" where
  "truthy x = (case x of None \<Rightarrow> False | Some s \<Rightarrow> s \<noteq> [])"

text \<open>\<open>x || y\<close> with a string default \<open>y\<close>.\<close>

definition or_else :: "string option \<Rightarrow> string \<Rightarrow> string" where
  "or_else x y = (case x of None \<Rightarrow> y | Some s \<Rightarrow> if s = [] then y else s)"

text \<open>\<open>x || undefined\<close>.\<close>

definition or_undefined :: "string option \<Rightarrow> string option" where
  "or_undefined x = (case x of None \<Rightarrow> None | Some s \<Rightarrow> if s = [] then None else Some s)"

text \<open>
  Identifiers (repository and analysis ids) are natural numbers; a template literal
  \<open>`${n}`\<close> renders them in decimal.
\<close>

fun toString_nat :: "nat \<Rightarrow> string" where
  "toString_nat n =
     (if n < 10 then [''0123456789'' ! n]
      else toString_nat (n div 10) @ [''0123456789'' ! (n mod 10)])"

declare toString_nat.simps [simp del]

datatype jsval = Undefined | Num int | Str string

section \<open>Records of \<open>lib/auth.ts\<close>\<close>

record User =
  user_id :: nat
  github_id :: nat
  username :: string
  user_name :: "string option"
  email :: "string option"
  avatar_url :: "string option"
  github_url :: "string option"
  is_active :: bool
  user_created_at :: string

record AuthToken =
  access_token :: string
  token_type :: string
  token_user :: User

definition AUTH_TOKEN_KEY :: string where
  "AUTH_TOKEN_KEY = ''codecritic_auth_token''"

section \<open>Records of the dashboard and of the results view\<close>

record Repository =
  repo_id :: nat
  repo_name :: string
  full_name :: string
  repo_description :: "string option"
  html_url :: string
  language :: "string option"
  is_private :: bool
  stars_count :: nat
  forks_count :: nat
  updated_at :: string

record RepoStats =
  total_repositories :: nat
  total_stars :: nat
  total_forks :: nat
  languages :: "(string \<times> nat) list"
  private_repos :: nat
  public_repos :: nat

record CodeIssue =
  issue_id :: nat
  severity :: string
  category :: string
  file_path :: string
  line_number :: "nat option"
  title :: string
  issue_description :: string
  suggestion :: "string option"
  issue_created_at :: string

text \<open>The fields of \<open>Analysis\<close> that are counts or texts; \<open>overall_score\<close> and
  \<open>estimated_cost\<close> are floating-point numbers and are left out.\<close>

record Analysis =
  analysis_ident :: nat
  repository_id :: nat
  analysis_status :: string
  total_issues :: nat
  critical_issues :: nat
  high_issues :: nat
  medium_issues :: nat
  low_issues :: nat
  summary :: "string option"
  files_analyzed :: nat
  lines_analyzed :: nat
  tokens_used :: nat
  analysis_created_at :: string
  completed_at :: "string option"
  issues :: "CodeIssue list"

section \<open>Requests, failures and the state of the client\<close>

datatype http_method = GET | POST | DELETE

text \<open>
  A request as axios sends it: the path below the configured base URL, the query
  parameters, the JSON body (absent for a call without one) and the headers.
\<close>

record request =
  http_verb :: http_method
  url :: string
  params :: "(string \<times> jsval) list"
  data :: "(string \<times> jsval) list option"
  headers :: "(string \<times> string) list"

text \<open>
  A rejected call: the handlers read only \<open>error.response?.data?.detail\<close>, which is
  absent for a transport failure or a response without that field.
\<close>

record AxiosError =
  detail :: "string option"

text \<open>
  The state the handlers read and write.
  \<^item> \<open>localStorage\<close> is \<open>None\<close> where \<open>typeof window === 'undefined'\<close>, else the storage of
    the window;
  \<^item> \<open>user\<close> and \<open>loading\<close> are the state of \<open>AuthProvider\<close>;
  \<^item> \<open>error\<close> is the state of \<open>AuthCallback\<close>;
  \<^item> \<open>repositories\<close>, \<open>stats\<close>, \<open>syncing\<close> and \<open>analyzingRepos\<close> are the state of
    \<open>DashboardPage\<close>;
  \<^item> \<open>requests\<close>, \<open>pushes\<close>, \<open>alerts\<close> and \<open>console\<close> log, oldest first, the requests
    sent through \<open>api\<close>, the calls of \<open>router.push\<close>, of \<open>alert\<close> and of
    \<open>console.error\<close> (its first argument).
\<close>

record world =
  localStorage :: "(string \<rightharpoonup> string) option"
  user :: "User option"
  loading :: bool
  error :: "string option"
  repositories :: "Repository list"
  stats :: "RepoStats option"
  syncing :: bool
  analyzingRepos :: "nat set"
  requests :: "request list"
  pushes :: "string list"
  alerts :: "string list"
  console :: "string list"

subsection \<open>The credential store (\<open>lib/auth.ts\<close>)\<close>

definition setAuthToken :: "string \<Rightarrow> world \<Rightarrow> world" where
  "setAuthToken token w =
     (case localStorage w of
        None \<Rightarrow> w
      | Some m \<Rightarrow> w\<lparr>localStorage := Some (m(AUTH_TOKEN_KEY \<mapsto> token))\<rparr>)"

definition getAuthToken :: "world \<Rightarrow> string option" where
  "getAuthToken w = (case localStorage w of None \<Rightarrow> None | Some m \<Rightarrow> m AUTH_TOKEN_KEY)"

definition removeAuthToken :: "world \<Rightarrow> world" where
  "removeAuthToken w =
     (case localStorage w of
        None \<Rightarrow> w
      | Some m \<Rightarrow> w\<lparr>localStorage := Some (m(AUTH_TOKEN_KEY := None))\<rparr>)"

subsection \<open>The gateway (\<open>lib/api.ts\<close>)\<close>

text \<open>\<open>axios.create\<close>: the headers of the instance, under those the request sets itself.\<close>

definition api_defaults :: "request \<Rightarrow> request" where
  "api_defaults c =
     c\<lparr>headers := AList.merge [(''Content-Type'', ''application/json'')] (headers c)\<rparr>"

text \<open>\<open>api.interceptors.request.use\<close>.\<close>

definition interceptor :: "world \<Rightarrow> request \<Rightarrow> request" where
  "interceptor w config =
     (let token = getAuthToken w in
      if truthy token
      then config\<lparr>headers := AList.update ''Authorization'' (''Bearer '' @ the token) (headers config)\<rparr>
      else config)"

text \<open>The configurations the exported functions hand to \<open>api.get\<close>, \<open>api.post\<close> and
  \<open>api.delete\<close>. A parameter with a default value is an \<open>option\<close>: \<open>None\<close> is the
  argument left out.\<close>

definition api_get :: "string \<Rightarrow> (string \<times> jsval) list \<Rightarrow> request" where
  "api_get path ps = \<lparr>http_verb = GET, url = path, params = ps, data = None, headers = []\<rparr>"

definition api_post :: "string \<Rightarrow> (string \<times> jsval) list option \<Rightarrow> request" where
  "api_post path body = \<lparr>http_verb = POST, url = path, params = [], data = body, headers = []\<rparr>"

definition api_delete :: "string \<Rightarrow> request" where
  "api_delete path = \<lparr>http_verb = DELETE, url = path, params = [], data = None, headers = []\<rparr>"

definition githubLogin :: request where
  "githubLogin = api_get ''/api/v1/auth/github/login'' []"

definition githubCallback :: "string \<Rightarrow> string option \<Rightarrow> request" where
  "githubCallback code state =
     api_post ''/api/v1/auth/github/callback''
       (Some [(''code'', Str code),
              (''state'', case state of None \<Rightarrow> Undefined | Some s \<Rightarrow> Str s)])"

definition getCurrentUser :: request where
  "getCurrentUser = api_get ''/api/v1/auth/me'' []"

text \<open>\<open>logout\<close> of \<open>lib/api.ts\<close>, which \<open>AuthProvider\<close> imports as \<open>apiLogout\<close>.\<close>

definition apiLogout :: request where
  "apiLogout = api_post ''/api/v1/auth/logout'' None"

definition syncRepositories :: request where
  "syncRepositories = api_post ''/api/v1/repositories/sync'' None"

definition listRepositories :: "int option \<Rightarrow> int option \<Rightarrow> request" where
  "listRepositories skip limit =
     (let skip = (case skip of None \<Rightarrow> 0 | Some k \<Rightarrow> k);
          limit = (case limit of None \<Rightarrow> 100 | Some k \<Rightarrow> k)
      in api_get ''/api/v1/repositories/list'' [(''skip'', Num skip), (''limit'', Num limit)])"

definition getRepository :: "nat \<Rightarrow> request" where
  "getRepository repoId = api_get (''/api/v1/repositories/'' @ toString_nat repoId) []"

definition deleteRepository :: "nat \<Rightarrow> request" where
  "deleteRepository repoId = api_delete (''/api/v1/repositories/'' @ toString_nat repoId)"

definition getRepositoryStats :: request where
  "getRepositoryStats = api_get ''/api/v1/repositories/stats/summary'' []"

definition startAnalysis :: "nat \<Rightarrow> request" where
  "startAnalysis repositoryId =
     api_post (''/api/v1/analysis/analyze/'' @ toString_nat repositoryId) None"

definition listAnalyses :: "int option \<Rightarrow> int option \<Rightarrow> request" where
  "listAnalyses skip limit =
     (let skip = (case skip of None \<Rightarrow> 0 | Some k \<Rightarrow> k);
          limit = (case limit of None \<Rightarrow> 50 | Some k \<Rightarrow> k)
      in api_get ''/api/v1/analysis/list'' [(''skip'', Num skip), (''limit'', Num limit)])"

definition getRepositoryAnalyses :: "nat \<Rightarrow> request" where
  "getRepositoryAnalyses repositoryId =
     api_get (''/api/v1/analysis/repository/'' @ toString_nat repositoryId) []"

definition getAnalysis :: "nat \<Rightarrow> request" where
  "getAnalysis analysisId = api_get (''/api/v1/analysis/'' @ toString_nat analysisId) []"

definition getAnalysisIssues :: "nat \<Rightarrow> string option \<Rightarrow> request" where
  "getAnalysisIssues analysisId sev =
     api_get (''/api/v1/analysis/'' @ toString_nat analysisId @ ''/issues'')
       (if truthy sev then [(''severity'', Str (the sev))] else [])"

definition getLatestAnalysis :: "nat \<Rightarrow> request" where
  "getLatestAnalysis repositoryId =
     api_get (''/api/v1/analysis/repository/'' @ toString_nat repositoryId @ ''/latest'') []"

definition deleteAnalysis :: "nat \<Rightarrow> request" where
  "deleteAnalysis analysisId = api_delete (''/api/v1/analysis/'' @ toString_nat analysisId)"

text \<open>One constructor for each exported function of \<open>lib/api.ts\<close>, with its arguments.\<close>

datatype operation =
    GithubLogin
  | GithubCallback string "string option"
  | GetCurrentUser
  | Logout
  | SyncRepositories
  | ListRepositories "int option" "int option"
  | GetRepository nat
  | DeleteRepository nat
  | GetRepositoryStats
  | StartAnalysis nat
  | ListAnalyses "int option" "int option"
  | GetRepositoryAnalyses nat
  | GetAnalysis nat
  | GetAnalysisIssues nat "string option"
  | GetLatestAnalysis nat
  | DeleteAnalysis nat

fun config_of :: "operation \<Rightarrow> request" where
  "config_of GithubLogin = githubLogin"
| "config_of (GithubCallback code state) = githubCallback code state"
| "config_of GetCurrentUser = getCurrentUser"
| "config_of Logout = apiLogout"
| "config_of SyncRepositories = syncRepositories"
| "config_of (ListRepositories skip limit) = listRepositories skip limit"
| "config_of (GetRepository repoId) = getRepository repoId"
| "config_of (DeleteRepository repoId) = deleteRepository repoId"
| "config_of GetRepositoryStats = getRepositoryStats"
| "config_of (StartAnalysis repositoryId) = startAnalysis repositoryId"
| "config_of (ListAnalyses skip limit) = listAnalyses skip limit"
| "config_of (GetRepositoryAnalyses repositoryId) = getRepositoryAnalyses repositoryId"
| "config_of (GetAnalysis analysisId) = getAnalysis analysisId"
| "config_of (GetAnalysisIssues analysisId sev) = getAnalysisIssues analysisId sev"
| "config_of (GetLatestAnalysis repositoryId) = getLatestAnalysis repositoryId"
| "config_of (DeleteAnalysis analysisId) = deleteAnalysis analysisId"

text \<open>The request that leaves the client for an operation, and the call itself, which
  logs that request.\<close>

definition api_request :: "world \<Rightarrow> operation \<Rightarrow> request" where
  "api_request w op = interceptor w (api_defaults (config_of op))"

definition api_call :: "operation \<Rightarrow> world \<Rightarrow> world" where
  "api_call op w = w\<lparr>requests := requests w @ [api_request w op]\<rparr>"

section \<open>Effects of the handlers\<close>

definition router_push :: "string \<Rightarrow> world \<Rightarrow> world" where
  "router_push path w = w\<lparr>pushes := pushes w @ [path]\<rparr>"

definition alert :: "string \<Rightarrow> world \<Rightarrow> world" where
  "alert msg w = w\<lparr>alerts := alerts w @ [msg]\<rparr>"

definition console_error :: "string \<Rightarrow> world \<Rightarrow> world" where
  "console_error msg w = w\<lparr>console := console w @ [msg]\<rparr>"

text \<open>The initial values of every \<open>useState\<close>, over a given storage, before any effect.\<close>

definition initial_world :: "(string \<rightharpoonup> string) option \<Rightarrow> world" where
  "initial_world store =
     \<lparr>localStorage = store, user = None, loading = True, error = None,
      repositories = [], stats = None, syncing = False, analyzingRepos = {},
      requests = [], pushes = [], alerts = [], console = []\<rparr>"

text \<open>A backend that gives the same answer to every request.\<close>

definition replies :: "'a \<Rightarrow> request \<Rightarrow> 'a" where
  [simp]: "replies answer r = answer"

section \<open>\<open>AuthProvider\<close>\<close>

text \<open>
  An awaited call is the logged request followed by a case split on the reply of the
  backend, which the handler takes as a function of the request it sent: \<open>Inl\<close> is the
  rejected promise that the \<open>catch\<close> block receives.
\<close>

definition initAuth :: "(request \<Rightarrow> AxiosError + User) \<Rightarrow> world \<Rightarrow> world" where
  "initAuth reply w =
     (let token = getAuthToken w;
          w1 = (if truthy token
                then (let w2 = api_call GetCurrentUser w in
                      case reply (api_request w GetCurrentUser) of
                        Inr userData \<Rightarrow> w2\<lparr>user := Some userData\<rparr>
                      | Inl e \<Rightarrow> removeAuthToken (console_error ''Failed to get current user:'' w2))
                else w)
      in w1\<lparr>loading := False\<rparr>)"

definition login :: "AuthToken \<Rightarrow> world \<Rightarrow> world" where
  "login tokenData w = (setAuthToken (access_token tokenData) w)\<lparr>user := Some (token_user tokenData)\<rparr>"

definition logout :: "(request \<Rightarrow> AxiosError + unit) \<Rightarrow> world \<Rightarrow> world" where
  "logout reply w =
     (let w1 = api_call Logout w;
          w2 = (case reply (api_request w Logout) of
                  Inr _ \<Rightarrow> w1
                | Inl e \<Rightarrow> console_error ''Logout error:'' w1)
      in (removeAuthToken w2)\<lparr>user := None\<rparr>)"

definition isAuthenticated :: "world \<Rightarrow> bool" where
  "isAuthenticated w = (user w \<noteq> None)"

section \<open>\<open>AuthCallback\<close>\<close>

text \<open>\<open>URLSearchParams.get\<close>: the first value under the name, or \<open>null\<close>. The query is the
  list of its name and value pairs in order.\<close>

definition searchParams_get :: "(string \<times> string) list \<Rightarrow> string \<Rightarrow> string option" where
  "searchParams_get searchParams name = map_of searchParams name"

definition handleCallback ::
  "(request \<Rightarrow> AxiosError + AuthToken) \<Rightarrow> (string \<times> string) list \<Rightarrow> world \<Rightarrow> world" where
  "handleCallback reply searchParams w =
     (let code = searchParams_get searchParams ''code'';
          state = searchParams_get searchParams ''state'';
          errorParam = searchParams_get searchParams ''error''
      in if truthy errorParam then w\<lparr>error := Some ''GitHub authentication was denied''\<rparr>
         else if \<not> truthy code then w\<lparr>error := Some ''No authorization code received''\<rparr>
         else (let op = GithubCallback (the code) (or_undefined state);
                   w1 = api_call op w
               in case reply (api_request w op) of
                    Inr tokenData \<Rightarrow> router_push ''/dashboard'' (login tokenData w1)
                  | Inl e \<Rightarrow>
                      (console_error ''Callback error:'' w1)
                        \<lparr>error := Some (or_else (detail e) ''Authentication failed'')\<rparr>))"

text \<open>
  \<open>handleCallback\<close> above is one run of the inner async function, with the reply to the
  awaited exchange supplied. Its two halves are the code up to the \<open>await\<close>, which
  returns the operation whose reply it waits for, if any, and the code after it.
\<close>

definition handleCallback_begin ::
  "(string \<times> string) list \<Rightarrow> world \<Rightarrow> world \<times> operation option" where
  "handleCallback_begin searchParams w =
     (let code = searchParams_get searchParams ''code'';
          state = searchParams_get searchParams ''state'';
          errorParam = searchParams_get searchParams ''error''
      in if truthy errorParam
         then (w\<lparr>error := Some ''GitHub authentication was denied''\<rparr>, None)
         else if \<not> truthy code
         then (w\<lparr>error := Some ''No authorization code received''\<rparr>, None)
         else (let op = GithubCallback (the code) (or_undefined state)
               in (api_call op w, Some op)))"

definition handleCallback_resume :: "AxiosError + AuthToken \<Rightarrow> world \<Rightarrow> world" where
  "handleCallback_resume settled w1 =
     (case settled of
        Inr tokenData \<Rightarrow> router_push ''/dashboard'' (login tokenData w1)
      | Inl e \<Rightarrow>
          (console_error ''Callback error:'' w1)
            \<lparr>error := Some (or_else (detail e) ''Authentication failed'')\<rparr>)"

text \<open>
  The function runs from \<open>useEffect(..., [searchParams, login, router])\<close>: after a render
  the effect runs when a dependency differs from the one of its last run. The router is
  the same object throughout. \<open>login\<close> is a function that \<open>AuthProvider\<close> creates anew in
  every render of its own, so it is named by the count of those renders, and
  \<open>AuthProvider\<close> renders again whenever \<open>user\<close> or \<open>loading\<close> changes.

  The callback view is the state of the client together with
  \<^item> \<open>login_identity\<close>, the number of renders of \<open>AuthProvider\<close> after the first;
  \<^item> \<open>effect_deps\<close>, the query and the \<open>login\<close> with which the effect last ran, \<open>None\<close>
    before its first run;
  \<^item> \<open>awaiting\<close>, the exchanges whose reply has not arrived, oldest first.
\<close>

record callback_view =
  app :: world
  login_identity :: nat
  effect_deps :: "((string \<times> string) list \<times> nat) option"
  awaiting :: "operation list"

definition callback_mount :: "(string \<rightharpoonup> string) option \<Rightarrow> callback_view" where
  "callback_mount store =
     \<lparr>app = initial_world store, login_identity = 0, effect_deps = None, awaiting = []\<rparr>"

text \<open>A step that may set the state of \<open>AuthProvider\<close>: a change of \<open>user\<close> or \<open>loading\<close>
  renders the provider, which makes a new \<open>login\<close>. A user record equal to the one held
  is taken for the same object.\<close>

definition AuthProvider_step :: "(world \<Rightarrow> world) \<Rightarrow> callback_view \<Rightarrow> callback_view" where
  "AuthProvider_step f v =
     (let w' = f (app v)
      in v\<lparr>app := w',
           login_identity :=
             (if user w' = user (app v) \<and> loading w' = loading (app v)
              then login_identity v else Suc (login_identity v))\<rparr>)"

text \<open>The effect of \<open>AuthCallback\<close>, evaluated after a render.\<close>

definition AuthCallback_effect :: "(string \<times> string) list \<Rightarrow> callback_view \<Rightarrow> callback_view" where
  "AuthCallback_effect searchParams v =
     (if effect_deps v = Some (searchParams, login_identity v) then v
      else (case handleCallback_begin searchParams (app v) of
              (w1, pending) \<Rightarrow>
                v\<lparr>app := w1,
                  effect_deps := Some (searchParams, login_identity v),
                  awaiting := awaiting v @ (case pending of None \<Rightarrow> [] | Some op \<Rightarrow> [op])\<rparr>))"

text \<open>The reply to the oldest exchange in flight arrives; \<open>login\<close> in the continuation sets
  the user.\<close>

definition exchange_settled :: "AxiosError + AuthToken \<Rightarrow> callback_view \<Rightarrow> callback_view" where
  "exchange_settled settled v =
     (case awaiting v of
        [] \<Rightarrow> v
      | op # rest \<Rightarrow> AuthProvider_step (handleCallback_resume settled) (v\<lparr>awaiting := rest\<rparr>))"

text \<open>
  Loading the callback page. On mount the effects run child first: the effect of
  \<open>AuthCallback\<close>, then \<open>initAuth\<close> of the provider around it (which does not wait when no
  credential is stored; when it fetches the identity, the reply is taken to arrive
  before that of the exchange). \<open>initAuth\<close> sets \<open>loading\<close>, the provider renders, and the
  effect of \<open>AuthCallback\<close> is evaluated again.
\<close>

definition callback_page_load ::
  "(request \<Rightarrow> AxiosError + User) \<Rightarrow> (string \<times> string) list \<Rightarrow> (string \<rightharpoonup> string) option
     \<Rightarrow> callback_view" where
  "callback_page_load me_reply searchParams store =
     AuthCallback_effect searchParams
       (AuthProvider_step (initAuth me_reply)
          (AuthCallback_effect searchParams (callback_mount store)))"

section \<open>\<open>DashboardPage\<close>\<close>

record SyncResult =
  result_repositories :: "Repository list"
  synced_count :: nat

record AnalysisStarted =
  analysis_id :: nat
  status :: string

definition loadStats :: "(request \<Rightarrow> AxiosError + RepoStats) \<Rightarrow> world \<Rightarrow> world" where
  "loadStats reply w =
     (let w1 = api_call GetRepositoryStats w in
      case reply (api_request w GetRepositoryStats) of
        Inr repoStats \<Rightarrow> w1\<lparr>stats := Some repoStats\<rparr>
      | Inl e \<Rightarrow> console_error ''Failed to load stats:'' w1)"

text \<open>\<open>handleSyncRepositories\<close> reads the same in both versions of the page that have it
  (lines 74-87 and 346-359).\<close>

definition handleSyncRepositories ::
  "(request \<Rightarrow> AxiosError + SyncResult) \<Rightarrow> (request \<Rightarrow> AxiosError + RepoStats) \<Rightarrow> world \<Rightarrow> world" where
  "handleSyncRepositories sync_reply stats_reply w =
     (let w0 = w\<lparr>syncing := True\<rparr>;
          w1 = api_call SyncRepositories w0;
          w2 = (case sync_reply (api_request w0 SyncRepositories) of
                  Inr result \<Rightarrow>
                    alert (''Successfully synced '' @ toString_nat (synced_count result) @ '' repositories!'')
                      (loadStats stats_reply (w1\<lparr>repositories := result_repositories result\<rparr>))
                | Inl e \<Rightarrow>
                    alert (or_else (detail e) ''Failed to sync repositories'')
                      (console_error ''Failed to sync repositories:'' w1))
      in w2\<lparr>syncing := False\<rparr>)"

text \<open>The pictographs of the alerts, in UTF-8: U+2705, U+274C and U+23F3.\<close>

definition check_mark :: string where
  "check_mark = [CHR 0xE2, CHR 0x9C, CHR 0x85]"

definition cross_mark :: string where
  "cross_mark = [CHR 0xE2, CHR 0x9D, CHR 0x8C]"

definition hourglass :: string where
  "hourglass = [CHR 0xE2, CHR 0x8F, CHR 0xB3]"

text \<open>The file holds two versions of \<open>handleAnalyzeRepository\<close>. The first (lines 89-113)
  reports every outcome with an alert.\<close>

definition handleAnalyzeRepository_v1 ::
  "(request \<Rightarrow> AxiosError + AnalysisStarted) \<Rightarrow> nat \<Rightarrow> string \<Rightarrow> world \<Rightarrow> world" where
  "handleAnalyzeRepository_v1 reply repoId repoName w =
     (let w0 = w\<lparr>analyzingRepos := insert repoId (analyzingRepos w)\<rparr>;
          w1 = api_call (StartAnalysis repoId) w0;
          w2 = (case reply (api_request w0 (StartAnalysis repoId)) of
                  Inr result \<Rightarrow>
                    if status result = ''completed''
                    then alert (check_mark @ '' Analysis completed for '' @ repoName @ ''!''
                                @ [CHR 0x0A, CHR 0x0A] @ ''Analysis ID: ''
                                @ toString_nat (analysis_id result)) w1
                    else if status result = ''failed''
                    then alert (cross_mark @ '' Analysis failed for '' @ repoName) w1
                    else alert (hourglass @ '' Analysis in progress for '' @ repoName @ ''...'') w1
                | Inl e \<Rightarrow>
                    (let errorMessage = or_else (detail e) ''Failed to start analysis'' in
                     alert (cross_mark @ '' Error: '' @ errorMessage)
                       (console_error ''Failed to start analysis:'' w1)))
      in w2\<lparr>analyzingRepos := analyzingRepos w2 - {repoId}\<rparr>)"

text \<open>The second (lines 361-387) navigates to the results view, except for the status
  \<open>failed\<close>.\<close>

definition results_path :: "nat \<Rightarrow> string" where
  "results_path analysisId = ''/analysis/results?id='' @ toString_nat analysisId"

definition handleAnalyzeRepository_v2 ::
  "(request \<Rightarrow> AxiosError + AnalysisStarted) \<Rightarrow> nat \<Rightarrow> string \<Rightarrow> world \<Rightarrow> world" where
  "handleAnalyzeRepository_v2 reply repoId repoName w =
     (let w0 = w\<lparr>analyzingRepos := insert repoId (analyzingRepos w)\<rparr>;
          w1 = api_call (StartAnalysis repoId) w0;
          w2 = (case reply (api_request w0 (StartAnalysis repoId)) of
                  Inr result \<Rightarrow>
                    if status result = ''completed''
                    then router_push (results_path (analysis_id result)) w1
                    else if status result = ''failed''
                    then alert (cross_mark @ '' Analysis failed for '' @ repoName) w1
                    else router_push (results_path (analysis_id result)) w1
                | Inl e \<Rightarrow>
                    (let errorMessage = or_else (detail e) ''Failed to start analysis'' in
                     alert (cross_mark @ '' Error: '' @ errorMessage)
                       (console_error ''Failed to start analysis:'' w1)))
      in w2\<lparr>analyzingRepos := analyzingRepos w2 - {repoId}\<rparr>)"

section \<open>\<open>AnalysisResultsPage\<close>\<close>

text \<open>\<open>String.prototype.toLowerCase\<close> on the ASCII letters; other bytes are kept.\<close>

definition toLowerCase_char :: "char \<Rightarrow> char" where
  "toLowerCase_char c =
     (let n = (of_char c :: nat) in if 65 \<le> n \<and> n \<le> 90 then char_of (n + 32) else c)"

definition toLowerCase :: "string \<Rightarrow> string" where
  "toLowerCase s = map toLowerCase_char s"

definition filteredIssues :: "Analysis option \<Rightarrow> string \<Rightarrow> CodeIssue list" where
  "filteredIssues analysis selectedSeverity =
     (case analysis of
        None \<Rightarrow> []
      | Some a \<Rightarrow>
          filter (\<lambda>issue. selectedSeverity = ''all''
                    \<or> toLowerCase (severity issue) = selectedSeverity) (issues a))"

text \<open>The values the buttons of the view give to \<open>selectedSeverity\<close> (lines 217-241); the
  initial value is \<open>all\<close>.\<close>

definition severity_selectors :: "string list" where
  "severity_selectors = [''all'', ''critical'', ''high'', ''medium'', ''low'']"

text \<open>The filter as the specification words it: two severities are equal
  case-insensitively when their lower-case forms are equal; \<open>all\<close> keeps the list, any
  other selector keeps the issues whose severity equals it case-insensitively.\<close>

definition equal_ignoring_case :: "string \<Rightarrow> string \<Rightarrow> bool" where
  "equal_ignoring_case a b = (toLowerCase a = toLowerCase b)"

definition filter_spec :: "CodeIssue list \<Rightarrow> string \<Rightarrow> CodeIssue list" where
  "filter_spec xs sev =
     (if sev = ''all'' then xs else filter (\<lambda>issue. equal_ignoring_case (severity issue) sev) xs)"

section \<open>Example data\<close>

definition octocat :: User where
  "octocat =
     \<lparr>user_id = 1, github_id = 583231, username = ''octocat'', user_name = None,
      email = None, avatar_url = None, github_url = None, is_active = True,
      user_created_at = ''2025-01-01T00:00:00''\<rparr>"

definition bearer_token :: AuthToken where
  "bearer_token = \<lparr>access_token = ''gho_abc'', token_type = ''bearer'', token_user = octocat\<rparr>"

definition mac_token :: AuthToken where
  "mac_token = \<lparr>access_token = ''gho_abc'', token_type = ''mac'', token_user = octocat\<rparr>"

definition example_repository :: Repository where
  "example_repository =
     \<lparr>repo_id = 42, repo_name = ''hello-world'', full_name = ''octocat/hello-world'',
      repo_description = None, html_url = ''https://github.com/octocat/hello-world'',
      language = Some ''TypeScript'', is_private = False, stars_count = 3, forks_count = 1,
      updated_at = ''2025-01-01T00:00:00''\<rparr>"

definition example_stats :: RepoStats where
  "example_stats =
     \<lparr>total_repositories = 1, total_stars = 3, total_forks = 1,
      languages = [(''TypeScript'', 1)], private_repos = 0, public_repos = 1\<rparr>"

definition example_issue :: "nat \<Rightarrow> string \<Rightarrow> CodeIssue" where
  "example_issue n sev =
     \<lparr>issue_id = n, severity = sev, category = ''security'', file_path = ''src/index.ts'',
      line_number = None, title = ''finding'', issue_description = ''text'', suggestion = None,
      issue_created_at = ''2025-01-01T00:00:00''\<rparr>"

definition example_analysis :: "CodeIssue list \<Rightarrow> Analysis" where
  "example_analysis xs =
     \<lparr>analysis_ident = 7, repository_id = 42, analysis_status = ''completed'',
      total_issues = length xs, critical_issues = 0, high_issues = 0, medium_issues = 0,
      low_issues = 0, summary = None, files_analyzed = 1, lines_analyzed = 10,
      tokens_used = 100, analysis_created_at = ''2025-01-01T00:00:00'', completed_at = None,
      issues = xs\<rparr>"

section \<open>The gateway attaches the stored token\<close>

lemmas config_defs =
  githubLogin_def githubCallback_def getCurrentUser_def apiLogout_def syncRepositories_def
  listRepositories_def getRepository_def deleteRepository_def getRepositoryStats_def
  startAnalysis_def listAnalyses_def getRepositoryAnalyses_def getAnalysis_def
  getAnalysisIssues_def getLatestAnalysis_def deleteAnalysis_def
  api_get_def api_post_def api_delete_def

lemma headers_config_of: "headers (config_of op) = []"
  by (cases op) (simp_all add: config_defs Let_def)

lemma headers_api_request:
  "headers (api_request w op) =
     (if truthy (getAuthToken w)
      then [(''Content-Type'', ''application/json''),
            (''Authorization'', ''Bearer '' @ the (getAuthToken w))]
      else [(''Content-Type'', ''application/json'')])"
  by (simp add: api_request_def interceptor_def api_defaults_def headers_config_of Let_def)

lemma api_request_cong:
  "getAuthToken w' = getAuthToken w \<Longrightarrow> api_request w' op = api_request w op"
  by (simp add: api_request_def interceptor_def)

text \<open>
  C8, as the code has it. For every operation of \<open>lib/api.ts\<close> and every state of the
  client: the request carries \<open>Authorization: Bearer <token>\<close> exactly when the credential
  store returns a non-empty token, and no \<open>Authorization\<close> header when the store returns
  nothing or the empty string (the interceptor tests \<open>if (token)\<close>). The request depends
  on the state only through \<open>getAuthToken\<close>, and the call changes neither the storage nor
  the session (\<open>user\<close>, \<open>loading\<close>).
\<close>

theorem api_request_authorization:
  "map_of (headers (api_request w op)) ''Authorization'' =
     (case getAuthToken w of
        None \<Rightarrow> None
      | Some t \<Rightarrow> if t = [] then None else Some (''Bearer '' @ t))
   \<and> (\<forall>w'. getAuthToken w' = getAuthToken w \<longrightarrow> api_request w' op = api_request w op)
   \<and> localStorage (api_call op w) = localStorage w
   \<and> user (api_call op w) = user w
   \<and> loading (api_call op w) = loading w"
proof -
  have "map_of (headers (api_request w op)) ''Authorization'' =
     (case getAuthToken w of
        None \<Rightarrow> None
      | Some t \<Rightarrow> if t = [] then None else Some (''Bearer '' @ t))"
    by (simp add: headers_api_request truthy_def split: option.splits)
  moreover have "\<forall>w'. getAuthToken w' = getAuthToken w \<longrightarrow> api_request w' op = api_request w op"
    using api_request_cong by blast
  moreover have "localStorage (api_call op w) = localStorage w"
    and "user (api_call op w) = user w" and "loading (api_call op w) = loading w"
    by (simp_all add: api_call_def)
  ultimately show ?thesis by blast
qed

theorem api_request_authorization_witness:
  "map_of (headers (api_request (initial_world (Some [AUTH_TOKEN_KEY \<mapsto> ''abc''])) GetCurrentUser))
     ''Authorization'' = Some ''Bearer abc''
   \<and> api_request ((initial_world (Some [AUTH_TOKEN_KEY \<mapsto> ''abc'']))\<lparr>loading := False\<rparr>) GetCurrentUser
     = api_request (initial_world (Some [AUTH_TOKEN_KEY \<mapsto> ''abc''])) GetCurrentUser"
proof -
  let ?w = "initial_world (Some [AUTH_TOKEN_KEY \<mapsto> ''abc''])"
  note t = api_request_authorization [of ?w GetCurrentUser]
  have tok: "getAuthToken ?w = Some ''abc''"
    by (simp add: getAuthToken_def initial_world_def)
  have same: "getAuthToken (?w\<lparr>loading := False\<rparr>) = getAuthToken ?w"
    by (simp add: getAuthToken_def)
  from t have "map_of (headers (api_request ?w GetCurrentUser)) ''Authorization''
      = (case getAuthToken ?w of None \<Rightarrow> None
         | Some t \<Rightarrow> if t = [] then None else Some (''Bearer '' @ t))"
    by (rule conjunct1)
  then have a: "map_of (headers (api_request ?w GetCurrentUser)) ''Authorization'' = Some ''Bearer abc''"
    by (simp add: tok)
  from t same have b: "api_request (?w\<lparr>loading := False\<rparr>) GetCurrentUser = api_request ?w GetCurrentUser"
    by blast
  from a b show ?thesis by (rule conjI)
qed

text \<open>
  C8 as stated fails where the store holds the empty string: \<open>getAuthToken\<close> returns it, a
  token is held, and the request for the current user leaves without an \<open>Authorization\<close>
  header.
\<close>

theorem empty_token_no_header:
  "getAuthToken (initial_world (Some [AUTH_TOKEN_KEY \<mapsto> ''''])) = Some ''''
   \<and> map_of (headers (api_request (initial_world (Some [AUTH_TOKEN_KEY \<mapsto> ''''])) GetCurrentUser))
        ''Authorization'' = None"
  by (simp add: headers_api_request getAuthToken_def initial_world_def truthy_def)

section \<open>Paging defaults\<close>

text \<open>
  C10. Called without arguments, \<open>listRepositories\<close> sends \<open>GET /api/v1/repositories/list\<close>
  with \<open>skip = 0\<close> and \<open>limit = 100\<close>, and \<open>listAnalyses\<close> sends \<open>GET /api/v1/analysis/list\<close>
  with \<open>skip = 0\<close> and \<open>limit = 50\<close>, in every state of the client: the values come from
  the functions themselves.
\<close>

theorem list_defaults:
  "api_request w (ListRepositories None None) =
     interceptor w (api_defaults
       (api_get ''/api/v1/repositories/list'' [(''skip'', Num 0), (''limit'', Num 100)]))
   \<and> api_request w (ListAnalyses None None) =
     interceptor w (api_defaults
       (api_get ''/api/v1/analysis/list'' [(''skip'', Num 0), (''limit'', Num 50)]))
   \<and> params (api_request w (ListRepositories None None)) = [(''skip'', Num 0), (''limit'', Num 100)]
   \<and> params (api_request w (ListAnalyses None None)) = [(''skip'', Num 0), (''limit'', Num 50)]"
  by (simp add: api_request_def listRepositories_def listAnalyses_def interceptor_def
      api_defaults_def api_get_def Let_def)

section \<open>The session at startup and at logout\<close>

lemma getAuthToken_removeAuthToken: "getAuthToken (removeAuthToken w) = None"
  by (simp add: getAuthToken_def removeAuthToken_def split: option.splits)

lemma removeAuthToken_fields:
  "user (removeAuthToken w) = user w" "loading (removeAuthToken w) = loading w"
  "requests (removeAuthToken w) = requests w" "alerts (removeAuthToken w) = alerts w"
  "error (removeAuthToken w) = error w" "pushes (removeAuthToken w) = pushes w"
  "console (removeAuthToken w) = console w"
  by (simp_all add: removeAuthToken_def split: option.splits)

lemma initAuth_requests:
  "requests (initAuth reply w) =
     (if truthy (getAuthToken w) then requests w @ [api_request w GetCurrentUser] else requests w)"
  by (simp add: initAuth_def Let_def api_call_def console_error_def removeAuthToken_fields
      split: sum.splits)

text \<open>
  C3. At startup, when the credential store returns no credential, \<open>initAuth\<close> only
  clears \<open>loading\<close>: the user stays absent, the session is unauthenticated, and no
  request is sent.
\<close>

theorem initAuth_no_credential:
  "getAuthToken (initial_world store) = None \<Longrightarrow>
     initAuth reply (initial_world store) = (initial_world store)\<lparr>loading := False\<rparr>
     \<and> user (initAuth reply (initial_world store)) = None
     \<and> \<not> isAuthenticated (initAuth reply (initial_world store))
     \<and> \<not> loading (initAuth reply (initial_world store))
     \<and> requests (initAuth reply (initial_world store)) = []"
  by (simp add: initAuth_def truthy_def isAuthenticated_def initial_world_def)

theorem initAuth_no_credential_witness:
  "getAuthToken (initial_world (Some Map.empty)) = None
   \<and> user (initAuth (replies (Inl \<lparr>detail = None\<rparr>)) (initial_world (Some Map.empty))) = None
   \<and> \<not> loading (initAuth (replies (Inl \<lparr>detail = None\<rparr>)) (initial_world (Some Map.empty)))
   \<and> requests (initAuth (replies (Inl \<lparr>detail = None\<rparr>)) (initial_world (Some Map.empty))) = []"
proof -
  have h: "getAuthToken (initial_world (Some Map.empty)) = None"
    by (simp add: getAuthToken_def initial_world_def)
  from initAuth_no_credential [OF h, of "replies (Inl \<lparr>detail = None\<rparr>)"] h show ?thesis by blast
qed

text \<open>
  C4, as the code has it. At startup, when the store holds a non-empty credential and the
  backend rejects the identity fetch, \<open>initAuth\<close> sends that one fetch
  (\<open>GET /api/v1/auth/me\<close>) and ends with the user absent and \<open>loading\<close> false; the
  credential is removed, so that \<open>getAuthToken\<close> returns nothing afterwards, and nothing
  is shown to the user: no alert, no error state, no navigation.
\<close>

theorem initAuth_fetch_fails:
  assumes held: "getAuthToken (initial_world store) = Some t"
    and nonempty: "t \<noteq> []"
    and failed: "reply (api_request (initial_world store) GetCurrentUser) = Inl e"
  shows "requests (initAuth reply (initial_world store))
           = [api_request (initial_world store) GetCurrentUser]
     \<and> user (initAuth reply (initial_world store)) = None
     \<and> \<not> isAuthenticated (initAuth reply (initial_world store))
     \<and> \<not> loading (initAuth reply (initial_world store))
     \<and> getAuthToken (initAuth reply (initial_world store)) = None
     \<and> alerts (initAuth reply (initial_world store)) = []
     \<and> error (initAuth reply (initial_world store)) = None
     \<and> pushes (initAuth reply (initial_world store)) = []"
proof -
  let ?w = "initial_world store"
  from held nonempty have tr: "truthy (getAuthToken ?w)" by (simp add: truthy_def)
  then have run: "initAuth reply ?w =
      (removeAuthToken (console_error ''Failed to get current user:'' (api_call GetCurrentUser ?w)))
        \<lparr>loading := False\<rparr>"
    using failed by (simp add: initAuth_def Let_def)
  have req: "requests (initAuth reply ?w) = [api_request ?w GetCurrentUser]"
    using tr by (simp add: initAuth_requests) (simp add: initial_world_def)
  have tok: "getAuthToken (initAuth reply ?w) = None"
    unfolding run
    using getAuthToken_removeAuthToken [of "console_error ''Failed to get current user:'' (api_call GetCurrentUser ?w)"]
    by (simp add: getAuthToken_def)
  have "user (initAuth reply ?w) = None" "\<not> loading (initAuth reply ?w)"
    "alerts (initAuth reply ?w) = []" "error (initAuth reply ?w) = None"
    "pushes (initAuth reply ?w) = []"
    unfolding run
    by (simp_all add: removeAuthToken_fields console_error_def api_call_def initial_world_def)
  with req tok show ?thesis by (simp add: isAuthenticated_def)
qed

theorem initAuth_fetch_fails_witness:
  "getAuthToken (initial_world (Some [AUTH_TOKEN_KEY \<mapsto> ''stale''])) = Some ''stale''
   \<and> ''stale'' \<noteq> []
   \<and> requests (initAuth (replies (Inl \<lparr>detail = Some ''Could not validate credentials''\<rparr>))
        (initial_world (Some [AUTH_TOKEN_KEY \<mapsto> ''stale''])))
      = [api_request (initial_world (Some [AUTH_TOKEN_KEY \<mapsto> ''stale''])) GetCurrentUser]
   \<and> user (initAuth (replies (Inl \<lparr>detail = Some ''Could not validate credentials''\<rparr>))
        (initial_world (Some [AUTH_TOKEN_KEY \<mapsto> ''stale'']))) = None
   \<and> getAuthToken (initAuth (replies (Inl \<lparr>detail = Some ''Could not validate credentials''\<rparr>))
        (initial_world (Some [AUTH_TOKEN_KEY \<mapsto> ''stale'']))) = None"
proof -
  let ?w = "initial_world (Some [AUTH_TOKEN_KEY \<mapsto> ''stale''])"
  let ?reply = "replies (Inl \<lparr>detail = Some ''Could not validate credentials''\<rparr> :: AxiosError + User)"
  have held: "getAuthToken ?w = Some ''stale''"
    by (simp add: getAuthToken_def initial_world_def)
  have nonempty: "''stale'' \<noteq> []" by simp
  have failed: "?reply (api_request ?w GetCurrentUser) = Inl \<lparr>detail = Some ''Could not validate credentials''\<rparr>"
    by simp
  from initAuth_fetch_fails [of "Some [AUTH_TOKEN_KEY \<mapsto> ''stale'']" "''stale''" ?reply, OF held nonempty failed]
    held nonempty show ?thesis by blast
qed

text \<open>
  C4 as stated fails where the credential held is the empty string: \<open>if (token)\<close> takes
  it for no credential, so against a backend that rejects every identity fetch no fetch
  is made and the stored value is still there afterwards.
\<close>

theorem empty_credential_not_purged:
  "getAuthToken (initial_world (Some [AUTH_TOKEN_KEY \<mapsto> ''''])) = Some ''''
   \<and> requests (initAuth (replies (Inl \<lparr>detail = Some ''Could not validate credentials''\<rparr>))
        (initial_world (Some [AUTH_TOKEN_KEY \<mapsto> '''']))) = []
   \<and> getAuthToken (initAuth (replies (Inl \<lparr>detail = Some ''Could not validate credentials''\<rparr>))
        (initial_world (Some [AUTH_TOKEN_KEY \<mapsto> '''']))) = Some ''''"
  by (simp add: initAuth_def Let_def getAuthToken_def truthy_def initial_world_def)

text \<open>
  C5. Whatever the backend answers to the logout call, success or failure, \<open>logout\<close>
  ends with the user absent and the credential removed from the store. The call to the
  backend is made once, \<open>loading\<close> is left as it was, and no alert is raised.
\<close>

theorem logout_always_unauthenticated:
  "user (logout reply w) = None
   \<and> \<not> isAuthenticated (logout reply w)
   \<and> getAuthToken (logout reply w) = None
   \<and> loading (logout reply w) = loading w
   \<and> requests (logout reply w) = requests w @ [api_request w Logout]
   \<and> alerts (logout reply w) = alerts w"
proof -
  have tok: "getAuthToken (logout reply w) = None"
    using getAuthToken_removeAuthToken
    by (simp add: logout_def Let_def getAuthToken_def split: sum.splits)
  have "user (logout reply w) = None" "loading (logout reply w) = loading w"
    "requests (logout reply w) = requests w @ [api_request w Logout]"
    "alerts (logout reply w) = alerts w"
    by (simp_all add: logout_def Let_def removeAuthToken_fields console_error_def api_call_def
        split: sum.splits)
  with tok show ?thesis by (simp add: isAuthenticated_def)
qed

section \<open>What the store keeps after the token exchange\<close>

lemma localStorage_api_call: "localStorage (api_call op w) = localStorage w"
  by (simp add: api_call_def)

lemma localStorage_login:
  "localStorage (login tokenData w) =
     (case localStorage w of None \<Rightarrow> None
      | Some m \<Rightarrow> Some (m(AUTH_TOKEN_KEY \<mapsto> access_token tokenData)))"
  by (simp add: login_def setAuthToken_def split: option.splits)

lemma localStorage_handleCallback:
  "localStorage (handleCallback reply sp w) =
     (if truthy (searchParams_get sp ''error'') \<or> \<not> truthy (searchParams_get sp ''code'')
      then localStorage w
      else case reply (api_request w (GithubCallback (the (searchParams_get sp ''code''))
                         (or_undefined (searchParams_get sp ''state'')))) of
             Inl e \<Rightarrow> localStorage w
           | Inr td \<Rightarrow> localStorage (login td w))"
  by (simp add: handleCallback_def Let_def router_push_def console_error_def
      localStorage_login localStorage_api_call split: sum.splits)

lemma getAuthToken_initAuth:
  "getAuthToken (initAuth reply w) = None \<or> getAuthToken (initAuth reply w) = getAuthToken w"
  by (simp add: initAuth_def Let_def getAuthToken_def api_call_def console_error_def
      removeAuthToken_def split: sum.splits option.splits)

text \<open>
  C9, as the code has it. \<open>login\<close> writes the \<open>access_token\<close> string, and nothing else,
  under \<open>codecritic_auth_token\<close>; the token type is not stored. The callback handler
  changes the storage only when the exchange succeeded, and then to what \<open>login\<close> stores
  for the returned token; \<open>initAuth\<close> and \<open>logout\<close> never put a credential in place.
\<close>

theorem login_persists_access_token:
  "(\<forall>m. localStorage w = Some m \<longrightarrow>
        localStorage (login tokenData w) = Some (m(AUTH_TOKEN_KEY \<mapsto> access_token tokenData))
        \<and> getAuthToken (login tokenData w) = Some (access_token tokenData))
   \<and> (localStorage (handleCallback reply sp w) \<noteq> localStorage w \<longrightarrow>
        (\<exists>td. reply (api_request w (GithubCallback (the (searchParams_get sp ''code''))
                        (or_undefined (searchParams_get sp ''state'')))) = Inr td
              \<and> localStorage (handleCallback reply sp w) = localStorage (login td w)))
   \<and> (getAuthToken (initAuth reply1 w) = None \<or> getAuthToken (initAuth reply1 w) = getAuthToken w)
   \<and> getAuthToken (logout reply2 w) = None"
proof -
  have a: "\<forall>m. localStorage w = Some m \<longrightarrow>
        localStorage (login tokenData w) = Some (m(AUTH_TOKEN_KEY \<mapsto> access_token tokenData))
        \<and> getAuthToken (login tokenData w) = Some (access_token tokenData)"
    by (simp add: localStorage_login getAuthToken_def)
  have b: "localStorage (handleCallback reply sp w) \<noteq> localStorage w \<longrightarrow>
        (\<exists>td. reply (api_request w (GithubCallback (the (searchParams_get sp ''code''))
                        (or_undefined (searchParams_get sp ''state'')))) = Inr td
              \<and> localStorage (handleCallback reply sp w) = localStorage (login td w))"
    by (simp add: localStorage_handleCallback split: sum.splits)
  have d: "getAuthToken (logout reply2 w) = None"
    using getAuthToken_removeAuthToken
    by (simp add: logout_def Let_def getAuthToken_def split: sum.splits)
  from a b getAuthToken_initAuth [of reply1 w] d show ?thesis by blast
qed

theorem login_persists_access_token_witness:
  "localStorage (initial_world (Some Map.empty)) = Some Map.empty
   \<and> getAuthToken (login bearer_token (initial_world (Some Map.empty))) = Some ''gho_abc''
   \<and> localStorage (handleCallback (replies (Inr bearer_token)) [(''code'', ''abc123''), (''state'', ''xyz'')]
         (initial_world (Some Map.empty))) \<noteq> localStorage (initial_world (Some Map.empty))
   \<and> localStorage (handleCallback (replies (Inr bearer_token)) [(''code'', ''abc123''), (''state'', ''xyz'')]
         (initial_world (Some Map.empty))) = Some [AUTH_TOKEN_KEY \<mapsto> ''gho_abc'']"
proof -
  let ?w = "initial_world (Some Map.empty)"
  let ?reply = "replies (Inr bearer_token :: AxiosError + AuthToken)"
  let ?sp = "[(''code'', ''abc123''), (''state'', ''xyz'')]"
  note t = login_persists_access_token [of ?w bearer_token ?reply ?sp]
  have st: "localStorage ?w = Some Map.empty" by (simp add: initial_world_def)
  have ch: "localStorage (handleCallback ?reply ?sp ?w) \<noteq> localStorage ?w"
    by (simp add: localStorage_handleCallback localStorage_login st searchParams_get_def truthy_def)
  from t st have g: "getAuthToken (login bearer_token ?w) = Some (access_token bearer_token)"
    by blast
  from t ch obtain td where td: "?reply (api_request ?w (GithubCallback (the (searchParams_get ?sp ''code''))
                        (or_undefined (searchParams_get ?sp ''state'')))) = Inr td"
      and eq: "localStorage (handleCallback ?reply ?sp ?w) = localStorage (login td ?w)"
    by blast
  from td have "td = bearer_token" by simp
  with eq t st have "localStorage (handleCallback ?reply ?sp ?w)
      = Some (Map.empty(AUTH_TOKEN_KEY \<mapsto> access_token bearer_token))"
    by (simp add: localStorage_login)
  with st ch g show ?thesis by (simp add: bearer_token_def)
qed

text \<open>
  C9 as stated fails: two token responses that differ only in their token type leave the
  same storage, which holds the access token alone.
\<close>

theorem login_drops_token_type:
  "token_type bearer_token \<noteq> token_type mac_token
   \<and> localStorage (login bearer_token (initial_world (Some Map.empty)))
     = localStorage (login mac_token (initial_world (Some Map.empty)))
   \<and> localStorage (login bearer_token (initial_world (Some Map.empty)))
     = Some [AUTH_TOKEN_KEY \<mapsto> ''gho_abc'']"
  by (simp add: localStorage_login initial_world_def bearer_token_def mac_token_def)

section \<open>Precedence in the callback\<close>

lemma handleCallback_split:
  "handleCallback reply sp w =
     (case handleCallback_begin sp w of
        (w1, None) \<Rightarrow> w1
      | (w1, Some op) \<Rightarrow> handleCallback_resume (reply (api_request w op)) w1)"
  by (simp add: handleCallback_def handleCallback_begin_def handleCallback_resume_def Let_def)

lemma AuthCallback_effect_skip:
  "effect_deps v = Some (sp, login_identity v) \<Longrightarrow> AuthCallback_effect sp v = v"
  by (simp add: AuthCallback_effect_def)

lemma AuthCallback_effect_denied:
  assumes "effect_deps v \<noteq> Some (sp, login_identity v)"
    and "truthy (searchParams_get sp ''error'')"
  shows "app (AuthCallback_effect sp v) = (app v)\<lparr>error := Some ''GitHub authentication was denied''\<rparr>"
    and "awaiting (AuthCallback_effect sp v) = awaiting v"
  using assms by (simp_all add: AuthCallback_effect_def handleCallback_begin_def Let_def)

lemma AuthCallback_effect_missing_code:
  assumes "effect_deps v \<noteq> Some (sp, login_identity v)"
    and "\<not> truthy (searchParams_get sp ''error'')" and "\<not> truthy (searchParams_get sp ''code'')"
  shows "app (AuthCallback_effect sp v) = (app v)\<lparr>error := Some ''No authorization code received''\<rparr>"
    and "awaiting (AuthCallback_effect sp v) = awaiting v"
  using assms by (simp_all add: AuthCallback_effect_def handleCallback_begin_def Let_def)

lemma AuthCallback_effect_exchange:
  assumes "effect_deps v \<noteq> Some (sp, login_identity v)"
    and "\<not> truthy (searchParams_get sp ''error'')"
    and "searchParams_get sp ''code'' = Some c" and "c \<noteq> []"
  shows "app (AuthCallback_effect sp v)
           = api_call (GithubCallback c (or_undefined (searchParams_get sp ''state''))) (app v)"
    and "awaiting (AuthCallback_effect sp v)
           = awaiting v @ [GithubCallback c (or_undefined (searchParams_get sp ''state''))]"
  using assms by (simp_all add: AuthCallback_effect_def handleCallback_begin_def Let_def truthy_def)

lemma data_GithubCallback:
  "data (api_request w (GithubCallback c st)) =
     Some [(''code'', Str c), (''state'', case st of None \<Rightarrow> Undefined | Some s \<Rightarrow> Str s)]
   \<and> url (api_request w (GithubCallback c st)) = ''/api/v1/auth/github/callback''
   \<and> http_verb (api_request w (GithubCallback c st)) = POST"
  by (simp add: api_request_def interceptor_def api_defaults_def githubCallback_def api_post_def Let_def)

text \<open>
  C2, as the code has it. For every query of the callback URL and every run of the
  effect: when \<open>error\<close> is present and not empty, the outcome is the denied message and
  no request is sent, whatever \<open>code\<close> is; otherwise, when \<open>code\<close> is absent or empty,
  the outcome is the missing-code message and no request is sent; otherwise that run
  sends one request, the exchange with the code of the URL and with its state, the
  state being left undefined when it is absent or empty, and waits for its reply.
\<close>

theorem AuthCallback_effect_precedence:
  assumes runs: "effect_deps v \<noteq> Some (sp, login_identity v)"
  shows "(truthy (searchParams_get sp ''error'') \<longrightarrow>
      app (AuthCallback_effect sp v) = (app v)\<lparr>error := Some ''GitHub authentication was denied''\<rparr>
      \<and> requests (app (AuthCallback_effect sp v)) = requests (app v)
      \<and> awaiting (AuthCallback_effect sp v) = awaiting v)
   \<and> (\<not> truthy (searchParams_get sp ''error'') \<and> \<not> truthy (searchParams_get sp ''code'') \<longrightarrow>
      app (AuthCallback_effect sp v) = (app v)\<lparr>error := Some ''No authorization code received''\<rparr>
      \<and> requests (app (AuthCallback_effect sp v)) = requests (app v)
      \<and> awaiting (AuthCallback_effect sp v) = awaiting v)
   \<and> (\<forall>c. \<not> truthy (searchParams_get sp ''error'') \<and> searchParams_get sp ''code'' = Some c \<and> c \<noteq> [] \<longrightarrow>
      requests (app (AuthCallback_effect sp v)) =
        requests (app v)
          @ [api_request (app v) (GithubCallback c (or_undefined (searchParams_get sp ''state'')))]
      \<and> awaiting (AuthCallback_effect sp v) =
          awaiting v @ [GithubCallback c (or_undefined (searchParams_get sp ''state''))]
      \<and> data (api_request (app v) (GithubCallback c (or_undefined (searchParams_get sp ''state'')))) =
          Some [(''code'', Str c),
                (''state'', case searchParams_get sp ''state'' of
                              None \<Rightarrow> Undefined
                            | Some s \<Rightarrow> if s = [] then Undefined else Str s)])"
proof -
  have a: "truthy (searchParams_get sp ''error'') \<longrightarrow>
      app (AuthCallback_effect sp v) = (app v)\<lparr>error := Some ''GitHub authentication was denied''\<rparr>
      \<and> requests (app (AuthCallback_effect sp v)) = requests (app v)
      \<and> awaiting (AuthCallback_effect sp v) = awaiting v"
    using runs by (simp add: AuthCallback_effect_denied)
  have b: "\<not> truthy (searchParams_get sp ''error'') \<and> \<not> truthy (searchParams_get sp ''code'') \<longrightarrow>
      app (AuthCallback_effect sp v) = (app v)\<lparr>error := Some ''No authorization code received''\<rparr>
      \<and> requests (app (AuthCallback_effect sp v)) = requests (app v)
      \<and> awaiting (AuthCallback_effect sp v) = awaiting v"
    using runs by (simp add: AuthCallback_effect_missing_code)
  have c: "\<forall>c. \<not> truthy (searchParams_get sp ''error'') \<and> searchParams_get sp ''code'' = Some c \<and> c \<noteq> [] \<longrightarrow>
      requests (app (AuthCallback_effect sp v)) =
        requests (app v)
          @ [api_request (app v) (GithubCallback c (or_undefined (searchParams_get sp ''state'')))]
      \<and> awaiting (AuthCallback_effect sp v) =
          awaiting v @ [GithubCallback c (or_undefined (searchParams_get sp ''state''))]
      \<and> data (api_request (app v) (GithubCallback c (or_undefined (searchParams_get sp ''state'')))) =
          Some [(''code'', Str c),
                (''state'', case searchParams_get sp ''state'' of
                              None \<Rightarrow> Undefined
                            | Some s \<Rightarrow> if s = [] then Undefined else Str s)]"
  proof (intro allI impI, elim conjE)
    fix c
    assume e: "\<not> truthy (searchParams_get sp ''error'')"
      and k: "searchParams_get sp ''code'' = Some c" and n: "c \<noteq> []"
    have r: "requests (app (AuthCallback_effect sp v)) =
        requests (app v)
          @ [api_request (app v) (GithubCallback c (or_undefined (searchParams_get sp ''state'')))]"
      by (simp add: AuthCallback_effect_exchange(1) [OF runs e k n] api_call_def)
    have q: "awaiting (AuthCallback_effect sp v) =
          awaiting v @ [GithubCallback c (or_undefined (searchParams_get sp ''state''))]"
      by (rule AuthCallback_effect_exchange(2) [OF runs e k n])
    have d: "data (api_request (app v) (GithubCallback c (or_undefined (searchParams_get sp ''state'')))) =
          Some [(''code'', Str c),
                (''state'', case searchParams_get sp ''state'' of
                              None \<Rightarrow> Undefined
                            | Some s \<Rightarrow> if s = [] then Undefined else Str s)]"
      by (simp add: data_GithubCallback or_undefined_def split: option.splits)
    from r q d show "requests (app (AuthCallback_effect sp v)) =
        requests (app v)
          @ [api_request (app v) (GithubCallback c (or_undefined (searchParams_get sp ''state'')))]
      \<and> awaiting (AuthCallback_effect sp v) =
          awaiting v @ [GithubCallback c (or_undefined (searchParams_get sp ''state''))]
      \<and> data (api_request (app v) (GithubCallback c (or_undefined (searchParams_get sp ''state'')))) =
          Some [(''code'', Str c),
                (''state'', case searchParams_get sp ''state'' of
                              None \<Rightarrow> Undefined
                            | Some s \<Rightarrow> if s = [] then Undefined else Str s)]"
      by blast
  qed
  from a b c show ?thesis by blast
qed

theorem AuthCallback_effect_precedence_witness:
  "effect_deps (callback_mount (Some Map.empty)) = None
   \<and> truthy (searchParams_get [(''error'', ''access_denied''), (''code'', ''abc123'')] ''error'')
   \<and> app (AuthCallback_effect [(''error'', ''access_denied''), (''code'', ''abc123'')]
             (callback_mount (Some Map.empty)))
       = (initial_world (Some Map.empty))\<lparr>error := Some ''GitHub authentication was denied''\<rparr>
   \<and> app (AuthCallback_effect [] (callback_mount (Some Map.empty)))
       = (initial_world (Some Map.empty))\<lparr>error := Some ''No authorization code received''\<rparr>
   \<and> requests (app (AuthCallback_effect [(''code'', ''abc123''), (''state'', ''xyz'')]
             (callback_mount (Some Map.empty))))
       = [api_request (initial_world (Some Map.empty)) (GithubCallback ''abc123'' (Some ''xyz''))]
   \<and> data (api_request (initial_world (Some Map.empty)) (GithubCallback ''abc123'' (Some ''xyz'')))
       = Some [(''code'', Str ''abc123''), (''state'', Str ''xyz'')]"
proof -
  let ?v = "callback_mount (Some Map.empty)"
  let ?denied = "[(''error'', ''access_denied''), (''code'', ''abc123'')]"
  let ?ok = "[(''code'', ''abc123''), (''state'', ''xyz'')]"
  have m: "effect_deps ?v = None" and ap: "app ?v = initial_world (Some Map.empty)"
    by (simp_all add: callback_mount_def)
  have r1: "effect_deps ?v \<noteq> Some (?denied, login_identity ?v)"
    and r2: "effect_deps ?v \<noteq> Some ([], login_identity ?v)"
    and r3: "effect_deps ?v \<noteq> Some (?ok, login_identity ?v)"
    by (simp_all add: m)
  have e1: "truthy (searchParams_get ?denied ''error'')"
    by (simp add: searchParams_get_def truthy_def)
  have e2: "\<not> truthy (searchParams_get [] ''error'') \<and> \<not> truthy (searchParams_get [] ''code'')"
    by (simp add: searchParams_get_def truthy_def)
  have e3: "\<not> truthy (searchParams_get ?ok ''error'') \<and> searchParams_get ?ok ''code'' = Some ''abc123''
            \<and> ''abc123'' \<noteq> []"
    by (simp add: searchParams_get_def truthy_def)
  have st: "or_undefined (searchParams_get ?ok ''state'') = Some ''xyz''"
    by (simp add: searchParams_get_def or_undefined_def)
  from AuthCallback_effect_precedence [OF r1] e1
  have a: "app (AuthCallback_effect ?denied ?v)
             = (app ?v)\<lparr>error := Some ''GitHub authentication was denied''\<rparr>"
    by blast
  from AuthCallback_effect_precedence [OF r2] e2
  have b: "app (AuthCallback_effect [] ?v) = (app ?v)\<lparr>error := Some ''No authorization code received''\<rparr>"
    by blast
  from AuthCallback_effect_precedence [OF r3] e3
  have "requests (app (AuthCallback_effect ?ok ?v)) =
        requests (app ?v)
          @ [api_request (app ?v) (GithubCallback ''abc123'' (or_undefined (searchParams_get ?ok ''state'')))]
      \<and> data (api_request (app ?v) (GithubCallback ''abc123'' (or_undefined (searchParams_get ?ok ''state'')))) =
          Some [(''code'', Str ''abc123''),
                (''state'', case searchParams_get ?ok ''state'' of
                              None \<Rightarrow> Undefined
                            | Some s \<Rightarrow> if s = [] then Undefined else Str s)]"
    by blast
  then have c: "requests (app (AuthCallback_effect ?ok ?v))
        = [api_request (initial_world (Some Map.empty)) (GithubCallback ''abc123'' (Some ''xyz''))]
      \<and> data (api_request (initial_world (Some Map.empty)) (GithubCallback ''abc123'' (Some ''xyz'')))
          = Some [(''code'', Str ''abc123''), (''state'', Str ''xyz'')]"
    unfolding st ap by (simp add: searchParams_get_def initial_world_def)
  from a b have a': "app (AuthCallback_effect ?denied ?v)
             = (initial_world (Some Map.empty))\<lparr>error := Some ''GitHub authentication was denied''\<rparr>"
    and b': "app (AuthCallback_effect [] ?v)
             = (initial_world (Some Map.empty))\<lparr>error := Some ''No authorization code received''\<rparr>"
    unfolding ap by blast+
  from m e1 a' b' c show ?thesis by blast
qed

text \<open>How often the effect runs while the page loads.\<close>

lemma AuthCallback_effect_deps:
  assumes "effect_deps v \<noteq> Some (sp, login_identity v)"
  shows "effect_deps (AuthCallback_effect sp v) = Some (sp, login_identity v)"
    and "login_identity (AuthCallback_effect sp v) = login_identity v"
  using assms by (simp_all add: AuthCallback_effect_def split: prod.splits)

lemma callback_page_load_requests:
  assumes fresh: "getAuthToken (initial_world store) = None"
    and e: "\<not> truthy (searchParams_get sp ''error'')"
    and k: "searchParams_get sp ''code'' = Some c" and n: "c \<noteq> []"
  shows "requests (app (callback_page_load me_reply sp store)) =
           [api_request (initial_world store) (GithubCallback c (or_undefined (searchParams_get sp ''state''))),
            api_request (initial_world store) (GithubCallback c (or_undefined (searchParams_get sp ''state'')))]"
proof -
  let ?op = "GithubCallback c (or_undefined (searchParams_get sp ''state''))"
  let ?w = "initial_world store"
  let ?v0 = "callback_mount store"
  let ?v1 = "AuthCallback_effect sp ?v0"
  let ?v2 = "AuthProvider_step (initAuth me_reply) ?v1"
  have r0: "effect_deps ?v0 \<noteq> Some (sp, login_identity ?v0)"
    by (simp add: callback_mount_def)
  have a0: "app ?v0 = ?w" and i0: "login_identity ?v0 = 0"
    by (simp_all add: callback_mount_def)
  have a1: "app ?v1 = api_call ?op ?w"
    using AuthCallback_effect_exchange(1) [OF r0 e k n] by (simp add: a0)
  have d1: "effect_deps ?v1 = Some (sp, 0)" and i1: "login_identity ?v1 = 0"
    using AuthCallback_effect_deps [OF r0] by (simp_all add: i0)
  have t1: "getAuthToken (api_call ?op ?w) = None"
    using fresh by (simp add: getAuthToken_def api_call_def)
  have init: "initAuth me_reply (api_call ?op ?w) = (api_call ?op ?w)\<lparr>loading := False\<rparr>"
    by (simp add: initAuth_def Let_def t1 truthy_def)
  have l1: "loading (api_call ?op ?w)"
    by (simp add: api_call_def initial_world_def)
  have a2: "app ?v2 = (api_call ?op ?w)\<lparr>loading := False\<rparr>"
    by (simp add: AuthProvider_step_def Let_def a1 init)
  have i2: "login_identity ?v2 = Suc 0"
    using l1 by (simp add: AuthProvider_step_def Let_def a1 init i1)
  have d2: "effect_deps ?v2 = Some (sp, 0)"
    by (simp add: AuthProvider_step_def Let_def d1)
  have r2: "effect_deps ?v2 \<noteq> Some (sp, login_identity ?v2)"
    by (simp add: d2 i2)
  have "app (AuthCallback_effect sp ?v2) = api_call ?op (app ?v2)"
    by (rule AuthCallback_effect_exchange(1) [OF r2 e k n])
  then have req3: "requests (app (AuthCallback_effect sp ?v2))
      = requests (app ?v2) @ [api_request (app ?v2) ?op]"
    by (simp add: api_call_def)
  have same: "api_request (app ?v2) ?op = api_request ?w ?op"
    by (rule api_request_cong) (simp add: a2 getAuthToken_def api_call_def)
  have req2: "requests (app ?v2) = [api_request ?w ?op]"
    by (simp add: a2 api_call_def initial_world_def)
  from req3 same req2 show ?thesis
    by (simp add: callback_page_load_def)
qed

text \<open>
  C2 as stated fails twice. For the query \<open>error=&code=abc123&state=xyz\<close> the \<open>error\<close>
  parameter is present, yet the exchange is called. And for \<open>code=abc123&state=xyz\<close>,
  with no credential stored, loading the page posts the exchange twice: \<open>initAuth\<close>
  sets \<open>loading\<close>, the provider renders with a new \<open>login\<close>, and the effect runs again.
\<close>

theorem empty_error_and_repeated_exchange:
  "searchParams_get [(''error'', ''''), (''code'', ''abc123''), (''state'', ''xyz'')] ''error'' = Some ''''
   \<and> requests (app (AuthCallback_effect [(''error'', ''''), (''code'', ''abc123''), (''state'', ''xyz'')]
         (callback_mount (Some Map.empty))))
       = [api_request (initial_world (Some Map.empty)) (GithubCallback ''abc123'' (Some ''xyz''))]
   \<and> requests (app (callback_page_load (replies (Inl \<lparr>detail = None\<rparr>))
         [(''code'', ''abc123''), (''state'', ''xyz'')] (Some Map.empty)))
       = [api_request (initial_world (Some Map.empty)) (GithubCallback ''abc123'' (Some ''xyz'')),
          api_request (initial_world (Some Map.empty)) (GithubCallback ''abc123'' (Some ''xyz''))]"
proof -
  let ?v = "callback_mount (Some Map.empty)"
  let ?bad = "[(''error'', ''''), (''code'', ''abc123''), (''state'', ''xyz'')]"
  let ?ok = "[(''code'', ''abc123''), (''state'', ''xyz'')]"
  have r: "effect_deps ?v \<noteq> Some (?bad, login_identity ?v)"
    by (simp add: callback_mount_def)
  have p: "searchParams_get ?bad ''error'' = Some ''''"
    by (simp add: searchParams_get_def)
  have e: "\<not> truthy (searchParams_get ?bad ''error'')"
    by (simp add: searchParams_get_def truthy_def)
  have k: "searchParams_get ?bad ''code'' = Some ''abc123''"
    by (simp add: searchParams_get_def)
  have s: "or_undefined (searchParams_get ?bad ''state'') = Some ''xyz''"
    by (simp add: searchParams_get_def or_undefined_def)
  have one: "requests (app (AuthCallback_effect ?bad ?v))
       = [api_request (initial_world (Some Map.empty)) (GithubCallback ''abc123'' (Some ''xyz''))]"
    using AuthCallback_effect_exchange(1) [OF r e k] s
    by (simp add: api_call_def callback_mount_def initial_world_def)
  have fresh: "getAuthToken (initial_world (Some Map.empty)) = None"
    by (simp add: getAuthToken_def initial_world_def)
  have e': "\<not> truthy (searchParams_get ?ok ''error'')"
    by (simp add: searchParams_get_def truthy_def)
  have k': "searchParams_get ?ok ''code'' = Some ''abc123''"
    by (simp add: searchParams_get_def)
  have s': "or_undefined (searchParams_get ?ok ''state'') = Some ''xyz''"
    by (simp add: searchParams_get_def or_undefined_def)
  have two: "requests (app (callback_page_load (replies (Inl \<lparr>detail = None\<rparr>)) ?ok (Some Map.empty)))
       = [api_request (initial_world (Some Map.empty)) (GithubCallback ''abc123'' (Some ''xyz'')),
          api_request (initial_world (Some Map.empty)) (GithubCallback ''abc123'' (Some ''xyz''))]"
    using callback_page_load_requests [OF fresh e' k', of "replies (Inl \<lparr>detail = None\<rparr>)"]
    unfolding s' by simp
  from p one two show ?thesis by blast
qed

section \<open>Repository sync\<close>

lemma api_request_updates:
  "api_request (w\<lparr>analyzingRepos := S\<rparr>) op = api_request w op"
  "api_request (w\<lparr>syncing := b\<rparr>) op = api_request w op"
  "api_request (w\<lparr>repositories := rs\<rparr>) op = api_request w op"
  "api_request (w\<lparr>requests := qs\<rparr>) op = api_request w op"
  by (rule api_request_cong, simp add: getAuthToken_def)+

lemma handleSyncRepositories_failure:
  assumes "sync_reply (api_request w SyncRepositories) = Inl e"
  shows "handleSyncRepositories sync_reply stats_reply w =
           w\<lparr>requests := requests w @ [api_request w SyncRepositories],
             console := console w @ [''Failed to sync repositories:''],
             alerts := alerts w @ [or_else (detail e) ''Failed to sync repositories''],
             syncing := False\<rparr>"
  using assms
  by (simp add: handleSyncRepositories_def Let_def alert_def console_error_def api_call_def
      api_request_updates)

lemma handleSyncRepositories_success:
  assumes "sync_reply (api_request w SyncRepositories) = Inr result"
  shows "repositories (handleSyncRepositories sync_reply stats_reply w) = result_repositories result"
    and "requests (handleSyncRepositories sync_reply stats_reply w)
           = requests w @ [api_request w SyncRepositories, api_request w GetRepositoryStats]"
    and "stats (handleSyncRepositories sync_reply stats_reply w)
           = (case stats_reply (api_request w GetRepositoryStats) of
                Inr repoStats \<Rightarrow> Some repoStats | Inl e \<Rightarrow> stats w)"
    and "alerts (handleSyncRepositories sync_reply stats_reply w)
           = alerts w @ [''Successfully synced '' @ toString_nat (synced_count result)
                         @ '' repositories!'']"
  using assms
  by (simp_all add: handleSyncRepositories_def Let_def alert_def console_error_def loadStats_def
      api_request_updates api_call_def split: sum.splits)

text \<open>
  C7, as the code has it. When the sync call is rejected, the repository list and the
  stats are what they were, the one request sent is the sync, and the alert shows the
  detail of the backend when that is present and not empty, else
  \<open>Failed to sync repositories\<close>. When it succeeds, the list is replaced by the returned
  repositories and the stats are requested again: they are replaced when that request
  succeeds and stay as they were when it fails.
\<close>

theorem handleSyncRepositories_outcomes:
  "(\<forall>e. sync_reply (api_request w SyncRepositories) = Inl e \<longrightarrow>
      repositories (handleSyncRepositories sync_reply stats_reply w) = repositories w
      \<and> stats (handleSyncRepositories sync_reply stats_reply w) = stats w
      \<and> requests (handleSyncRepositories sync_reply stats_reply w)
          = requests w @ [api_request w SyncRepositories]
      \<and> alerts (handleSyncRepositories sync_reply stats_reply w)
          = alerts w @ [case detail e of
                          None \<Rightarrow> ''Failed to sync repositories''
                        | Some d \<Rightarrow> if d = [] then ''Failed to sync repositories'' else d])
   \<and> (\<forall>result. sync_reply (api_request w SyncRepositories) = Inr result \<longrightarrow>
      repositories (handleSyncRepositories sync_reply stats_reply w) = result_repositories result
      \<and> requests (handleSyncRepositories sync_reply stats_reply w)
          = requests w @ [api_request w SyncRepositories, api_request w GetRepositoryStats]
      \<and> stats (handleSyncRepositories sync_reply stats_reply w)
          = (case stats_reply (api_request w GetRepositoryStats) of
               Inr repoStats \<Rightarrow> Some repoStats | Inl e \<Rightarrow> stats w))"
proof -
  have a: "\<forall>e. sync_reply (api_request w SyncRepositories) = Inl e \<longrightarrow>
      repositories (handleSyncRepositories sync_reply stats_reply w) = repositories w
      \<and> stats (handleSyncRepositories sync_reply stats_reply w) = stats w
      \<and> requests (handleSyncRepositories sync_reply stats_reply w)
          = requests w @ [api_request w SyncRepositories]
      \<and> alerts (handleSyncRepositories sync_reply stats_reply w)
          = alerts w @ [case detail e of
                          None \<Rightarrow> ''Failed to sync repositories''
                        | Some d \<Rightarrow> if d = [] then ''Failed to sync repositories'' else d]"
    by (simp add: handleSyncRepositories_failure or_else_def)
  have b: "\<forall>result. sync_reply (api_request w SyncRepositories) = Inr result \<longrightarrow>
      repositories (handleSyncRepositories sync_reply stats_reply w) = result_repositories result
      \<and> requests (handleSyncRepositories sync_reply stats_reply w)
          = requests w @ [api_request w SyncRepositories, api_request w GetRepositoryStats]
      \<and> stats (handleSyncRepositories sync_reply stats_reply w)
          = (case stats_reply (api_request w GetRepositoryStats) of
               Inr repoStats \<Rightarrow> Some repoStats | Inl e \<Rightarrow> stats w)"
    by (simp add: handleSyncRepositories_success)
  from a b show ?thesis by (rule conjI)
qed

theorem handleSyncRepositories_outcomes_witness:
  "repositories (handleSyncRepositories (replies (Inl \<lparr>detail = Some ''rate limited''\<rparr>)) (replies (Inr example_stats))
       ((initial_world (Some Map.empty))\<lparr>repositories := [example_repository]\<rparr>)) = [example_repository]
   \<and> alerts (handleSyncRepositories (replies (Inl \<lparr>detail = Some ''rate limited''\<rparr>)) (replies (Inr example_stats))
       ((initial_world (Some Map.empty))\<lparr>repositories := [example_repository]\<rparr>)) = [''rate limited'']
   \<and> repositories (handleSyncRepositories
       (replies (Inr \<lparr>result_repositories = [example_repository], synced_count = 1\<rparr>)) (replies (Inr example_stats))
       (initial_world (Some Map.empty))) = [example_repository]
   \<and> stats (handleSyncRepositories
       (replies (Inr \<lparr>result_repositories = [example_repository], synced_count = 1\<rparr>)) (replies (Inr example_stats))
       (initial_world (Some Map.empty))) = Some example_stats"
proof -
  let ?init = "initial_world (Some Map.empty)"
  let ?w = "?init\<lparr>repositories := [example_repository]\<rparr>"
  let ?limited = "replies (Inl \<lparr>detail = Some ''rate limited''\<rparr> :: AxiosError + SyncResult)"
  let ?synced = "replies (Inr \<lparr>result_repositories = [example_repository], synced_count = 1\<rparr> :: AxiosError + SyncResult)"
  let ?stats = "replies (Inr example_stats :: AxiosError + RepoStats)"
  have f: "?limited (api_request ?w SyncRepositories) = Inl \<lparr>detail = Some ''rate limited''\<rparr>"
    by simp
  have s: "?synced (api_request ?init SyncRepositories)
             = Inr \<lparr>result_repositories = [example_repository], synced_count = 1\<rparr>"
    by simp
  from handleSyncRepositories_outcomes [of ?limited ?w ?stats] f
  have a: "repositories (handleSyncRepositories ?limited ?stats ?w) = repositories ?w
      \<and> alerts (handleSyncRepositories ?limited ?stats ?w)
          = alerts ?w @ [case detail \<lparr>detail = Some ''rate limited''\<rparr> of
                          None \<Rightarrow> ''Failed to sync repositories''
                        | Some d \<Rightarrow> if d = [] then ''Failed to sync repositories'' else d]"
    by blast
  from handleSyncRepositories_outcomes [of ?synced ?init ?stats] s
  have b: "repositories (handleSyncRepositories ?synced ?stats ?init)
             = result_repositories \<lparr>result_repositories = [example_repository], synced_count = 1\<rparr>
      \<and> stats (handleSyncRepositories ?synced ?stats ?init)
          = (case ?stats (api_request ?init GetRepositoryStats) of
               Inr repoStats \<Rightarrow> Some repoStats | Inl e \<Rightarrow> stats ?init)"
    by blast
  from a b show ?thesis by (simp add: initial_world_def)
qed

text \<open>
  C7 as stated fails twice. A rejection whose detail is present and empty is reported
  with the generic message, not with the detail. And after a successful sync whose stats
  request is rejected, the stats held before are kept while the alert reports success.
\<close>

theorem empty_detail_and_failed_stats:
  "detail \<lparr>detail = Some ''''\<rparr> = Some ''''
   \<and> alerts (handleSyncRepositories (replies (Inl \<lparr>detail = Some ''''\<rparr>)) (replies (Inr example_stats))
       (initial_world (Some Map.empty))) = [''Failed to sync repositories'']
   \<and> stats (handleSyncRepositories
       (replies (Inr \<lparr>result_repositories = [example_repository], synced_count = 1\<rparr>))
       (replies (Inl \<lparr>detail = None\<rparr>))
       ((initial_world (Some Map.empty))\<lparr>stats := Some example_stats\<rparr>)) = Some example_stats
   \<and> alerts (handleSyncRepositories
       (replies (Inr \<lparr>result_repositories = [example_repository], synced_count = 1\<rparr>))
       (replies (Inl \<lparr>detail = None\<rparr>))
       ((initial_world (Some Map.empty))\<lparr>stats := Some example_stats\<rparr>))
       = [''Successfully synced 1 repositories!'']"
  by (simp add: handleSyncRepositories_def Let_def alert_def console_error_def loadStats_def
      api_call_def or_else_def initial_world_def toString_nat.simps)

section \<open>Starting an analysis\<close>

lemma handleAnalyzeRepository_v1_pushes:
  "pushes (handleAnalyzeRepository_v1 reply repoId repoName w) = pushes w"
  by (simp add: handleAnalyzeRepository_v1_def Let_def alert_def console_error_def api_call_def
      split: sum.splits)

lemma handleAnalyzeRepository_v2_requests:
  "requests (handleAnalyzeRepository_v2 reply repoId repoName w)
     = requests w @ [api_request w (StartAnalysis repoId)]"
  by (simp add: handleAnalyzeRepository_v2_def Let_def alert_def console_error_def api_call_def
      router_push_def api_request_updates split: sum.splits)

lemma handleAnalyzeRepository_v2_result:
  assumes "reply (api_request w (StartAnalysis repoId)) = Inr result"
  shows "pushes (handleAnalyzeRepository_v2 reply repoId repoName w)
           = (if status result = ''failed'' then pushes w
              else pushes w @ [results_path (analysis_id result)])"
    and "alerts (handleAnalyzeRepository_v2 reply repoId repoName w)
           = (if status result = ''failed''
              then alerts w @ [cross_mark @ '' Analysis failed for '' @ repoName]
              else alerts w)"
  using assms
  by (simp_all add: handleAnalyzeRepository_v2_def Let_def alert_def api_call_def
      router_push_def api_request_updates)

text \<open>
  C1, as the code has it. In the version of the page that navigates (lines 361-387), for
  every result of \<open>startAnalysis\<close> that is not an exception: when the status is anything
  but \<open>failed\<close> (so \<open>completed\<close>, \<open>pending\<close> or \<open>running\<close>), the handler pushes the route
  \<open>/analysis/results?id=<analysis_id>\<close> and raises no alert; when the status is \<open>failed\<close>,
  it raises the alert of the failure and pushes no route. In both cases the only request
  sent is the one \<open>POST\<close> that starts the analysis: nothing waits for the job and nothing
  polls. The earlier version (lines 89-113) never pushes a route.
\<close>

theorem handleAnalyzeRepository_v2_routes:
  "(\<forall>result. reply (api_request w (StartAnalysis repoId)) = Inr result \<longrightarrow>
      (status result \<noteq> ''failed'' \<longrightarrow>
         pushes (handleAnalyzeRepository_v2 reply repoId repoName w)
           = pushes w @ [''/analysis/results?id='' @ toString_nat (analysis_id result)]
         \<and> alerts (handleAnalyzeRepository_v2 reply repoId repoName w) = alerts w)
      \<and> (status result = ''failed'' \<longrightarrow>
         pushes (handleAnalyzeRepository_v2 reply repoId repoName w) = pushes w
         \<and> alerts (handleAnalyzeRepository_v2 reply repoId repoName w)
             = alerts w @ [cross_mark @ '' Analysis failed for '' @ repoName]))
   \<and> requests (handleAnalyzeRepository_v2 reply repoId repoName w)
       = requests w @ [api_request w (StartAnalysis repoId)]
   \<and> pushes (handleAnalyzeRepository_v1 reply repoId repoName w) = pushes w"
proof -
  have "\<forall>result. reply (api_request w (StartAnalysis repoId)) = Inr result \<longrightarrow>
      (status result \<noteq> ''failed'' \<longrightarrow>
         pushes (handleAnalyzeRepository_v2 reply repoId repoName w)
           = pushes w @ [''/analysis/results?id='' @ toString_nat (analysis_id result)]
         \<and> alerts (handleAnalyzeRepository_v2 reply repoId repoName w) = alerts w)
      \<and> (status result = ''failed'' \<longrightarrow>
         pushes (handleAnalyzeRepository_v2 reply repoId repoName w) = pushes w
         \<and> alerts (handleAnalyzeRepository_v2 reply repoId repoName w)
             = alerts w @ [cross_mark @ '' Analysis failed for '' @ repoName])"
    by (simp add: handleAnalyzeRepository_v2_result results_path_def)
  with handleAnalyzeRepository_v2_requests [of reply repoId repoName w]
    handleAnalyzeRepository_v1_pushes [of reply repoId repoName w]
  show ?thesis by blast
qed

theorem handleAnalyzeRepository_v2_routes_witness:
  "pushes (handleAnalyzeRepository_v2 (replies (Inr \<lparr>analysis_id = 7, status = ''pending''\<rparr>)) 42 ''repo''
      (initial_world (Some Map.empty))) = [''/analysis/results?id=7'']
   \<and> alerts (handleAnalyzeRepository_v2 (replies (Inr \<lparr>analysis_id = 7, status = ''pending''\<rparr>)) 42 ''repo''
      (initial_world (Some Map.empty))) = []
   \<and> pushes (handleAnalyzeRepository_v2 (replies (Inr \<lparr>analysis_id = 8, status = ''failed''\<rparr>)) 42 ''repo''
      (initial_world (Some Map.empty))) = []
   \<and> alerts (handleAnalyzeRepository_v2 (replies (Inr \<lparr>analysis_id = 8, status = ''failed''\<rparr>)) 42 ''repo''
      (initial_world (Some Map.empty))) = [cross_mark @ '' Analysis failed for repo'']"
proof -
  let ?w = "initial_world (Some Map.empty)"
  let ?pending = "replies (Inr \<lparr>analysis_id = 7, status = ''pending''\<rparr> :: AxiosError + AnalysisStarted)"
  let ?failed = "replies (Inr \<lparr>analysis_id = 8, status = ''failed''\<rparr> :: AxiosError + AnalysisStarted)"
  have seven: "toString_nat 7 = ''7''" by (simp add: toString_nat.simps)
  have p: "?pending (api_request ?w (StartAnalysis 42)) = Inr \<lparr>analysis_id = 7, status = ''pending''\<rparr>
           \<and> status \<lparr>analysis_id = 7, status = ''pending''\<rparr> \<noteq> ''failed''"
    by simp
  have f: "?failed (api_request ?w (StartAnalysis 42)) = Inr \<lparr>analysis_id = 8, status = ''failed''\<rparr>
           \<and> status \<lparr>analysis_id = 8, status = ''failed''\<rparr> = ''failed''"
    by simp
  from handleAnalyzeRepository_v2_routes [of ?pending ?w 42 "''repo''"] p
  have a: "pushes (handleAnalyzeRepository_v2 ?pending 42 ''repo'' ?w)
           = pushes ?w @ [''/analysis/results?id='' @ toString_nat (analysis_id \<lparr>analysis_id = 7, status = ''pending''\<rparr>)]
         \<and> alerts (handleAnalyzeRepository_v2 ?pending 42 ''repo'' ?w) = alerts ?w"
    by blast
  from handleAnalyzeRepository_v2_routes [of ?failed ?w 42 "''repo''"] f
  have b: "pushes (handleAnalyzeRepository_v2 ?failed 42 ''repo'' ?w) = pushes ?w
         \<and> alerts (handleAnalyzeRepository_v2 ?failed 42 ''repo'' ?w)
             = alerts ?w @ [cross_mark @ '' Analysis failed for '' @ ''repo'']"
    by blast
  from a b show ?thesis by (simp add: seven initial_world_def)
qed

text \<open>
  C1 as stated fails: for repository 42 and the reply \<open>{analysis_id: 7, status: "failed"}\<close>
  the navigating version pushes no route, and for the reply
  \<open>{analysis_id: 7, status: "pending"}\<close> the earlier version pushes none either.
\<close>

theorem failed_status_does_not_navigate:
  "pushes (handleAnalyzeRepository_v2 (replies (Inr \<lparr>analysis_id = 7, status = ''failed''\<rparr>)) 42 ''repo''
      (initial_world (Some Map.empty))) = []
   \<and> pushes (handleAnalyzeRepository_v1 (replies (Inr \<lparr>analysis_id = 7, status = ''pending''\<rparr>)) 42 ''repo''
      (initial_world (Some Map.empty))) = []"
  by (simp add: handleAnalyzeRepository_v2_def handleAnalyzeRepository_v1_def Let_def alert_def
      api_call_def initial_world_def)

section \<open>The issue filter\<close>

lemma toLowerCase_selectors: "s \<in> set severity_selectors \<Longrightarrow> toLowerCase s = s"
  by (auto simp: severity_selectors_def toLowerCase_def toLowerCase_char_def)

lemma filteredIssues_lower:
  "toLowerCase s = s \<Longrightarrow> filteredIssues (Some a) s = filter_spec (issues a) s"
  by (simp add: filteredIssues_def filter_spec_def equal_ignoring_case_def)

text \<open>
  C6. For every analysis, with any list of issues, and every selector \<open>s\<close> of the view:
  with \<open>all\<close> the filtered list is the list of issues itself; \<open>filteredIssues\<close> agrees
  with the filter of the specification, so for a specific severity it is exactly the
  issues whose severity equals \<open>s\<close> case-insensitively, in their original order (it is a
  subsequence of the input). The function is pure: it returns a list and changes
  nothing. Before an analysis is loaded the list is empty. The source lower-cases the
  severity of the issue and not the selector; every selector of the view is lower-case.
\<close>

theorem filteredIssues_by_severity:
  assumes "s \<in> set severity_selectors"
  shows "filteredIssues (Some a) ''all'' = issues a
     \<and> filteredIssues (Some a) s
         = (if s = ''all'' then issues a
            else filter (\<lambda>issue. equal_ignoring_case (severity issue) s) (issues a))
     \<and> subseq (filteredIssues (Some a) s) (issues a)
     \<and> filteredIssues None s = []"
proof -
  have all: "filteredIssues (Some a) ''all'' = issues a"
    by (simp add: filteredIssues_def)
  from assms have "toLowerCase s = s" by (rule toLowerCase_selectors)
  then have eq: "filteredIssues (Some a) s = filter_spec (issues a) s"
    by (rule filteredIssues_lower)
  have sub: "subseq (filteredIssues (Some a) s) (issues a)"
    by (simp add: filteredIssues_def subseq_filter_left)
  have none: "filteredIssues None s = []"
    by (simp add: filteredIssues_def)
  from all eq sub none show ?thesis by (simp add: filter_spec_def)
qed

theorem filteredIssues_by_severity_witness:
  "''high'' \<in> set severity_selectors
   \<and> filteredIssues (Some (example_analysis [example_issue 1 ''low'', example_issue 2 ''HIGH'',
                                               example_issue 3 ''High'', example_issue 4 ''critical''])) ''high''
     = [example_issue 2 ''HIGH'', example_issue 3 ''High'']"
proof -
  let ?a = "example_analysis [example_issue 1 ''low'', example_issue 2 ''HIGH'',
                              example_issue 3 ''High'', example_issue 4 ''critical'']"
  have h: "''high'' \<in> set severity_selectors" by (simp add: severity_selectors_def)
  have l: "toLowerCase ''low'' = ''low''" "toLowerCase ''HIGH'' = ''high''"
    "toLowerCase ''High'' = ''high''" "toLowerCase ''critical'' = ''critical''"
    "toLowerCase ''high'' = ''high''"
    by code_simp+
  from filteredIssues_by_severity [OF h, of ?a]
  have "filteredIssues (Some ?a) ''high''
         = filter (\<lambda>issue. equal_ignoring_case (severity issue) ''high'') (issues ?a)"
    by simp
  then have "filteredIssues (Some ?a) ''high'' = [example_issue 2 ''HIGH'', example_issue 3 ''High'']"
    by (simp add: equal_ignoring_case_def example_analysis_def example_issue_def l)
  with h show ?thesis by (rule conjI)
qed

end
